theory Spec2Isabelle
  imports Complex_Main
begin

section \<open>Feature access: \<open>src/lib/subscriptionUtils.ts\<close>\<close>

text \<open>
  The interface \<open>FeatureAccess\<close> is a record of 25 boolean flags and two numeric limits.
  The numeric limits are JavaScript numbers; the table only ever stores \<open>0\<close> and \<open>-1\<close>,
  so they are integers here.
\<close>

record FeatureAccess =
  basicSignals :: bool
  premiumSignals :: bool
  realTimeAlerts :: bool
  trading_dashboard :: bool
  basicCharts :: bool
  advancedCharts :: bool
  heatmapAnalysis :: bool
  cycleForecasting :: bool
  tradingPlayground :: bool
  emailAlerts :: bool
  smsAlerts :: bool
  telegramAlerts :: bool
  pushNotifications :: bool
  advancedAlerts :: bool
  multiChannelAlerts :: bool
  maxTickers :: int
  maxSignalsPerMonth :: int
  advancedAnalytics :: bool
  historicalData :: bool
  liveStreaming :: bool
  adminAccess :: bool
  apiAccess :: bool
  prioritySupport :: bool
  customIndicators :: bool
  whiteLabel :: bool

text \<open>\<open>keyof FeatureAccess\<close>: one constructor for each field name.\<close>

datatype feature =
    K_basicSignals | K_premiumSignals | K_realTimeAlerts | K_trading_dashboard
  | K_basicCharts | K_advancedCharts | K_heatmapAnalysis | K_cycleForecasting
  | K_tradingPlayground | K_emailAlerts | K_smsAlerts | K_telegramAlerts
  | K_pushNotifications | K_advancedAlerts | K_multiChannelAlerts
  | K_maxTickers | K_maxSignalsPerMonth
  | K_advancedAnalytics | K_historicalData | K_liveStreaming | K_adminAccess
  | K_apiAccess | K_prioritySupport | K_customIndicators | K_whiteLabel

text \<open>The value read by \<open>access[requiredFeature]\<close> is a boolean or a number.\<close>

datatype fieldval = FBool bool | FNum int

fun index_access :: "FeatureAccess \<Rightarrow> feature \<Rightarrow> fieldval" where
  "index_access a K_basicSignals = FBool (basicSignals a)"
| "index_access a K_premiumSignals = FBool (premiumSignals a)"
| "index_access a K_realTimeAlerts = FBool (realTimeAlerts a)"
| "index_access a K_trading_dashboard = FBool (trading_dashboard a)"
| "index_access a K_basicCharts = FBool (basicCharts a)"
| "index_access a K_advancedCharts = FBool (advancedCharts a)"
| "index_access a K_heatmapAnalysis = FBool (heatmapAnalysis a)"
| "index_access a K_cycleForecasting = FBool (cycleForecasting a)"
| "index_access a K_tradingPlayground = FBool (tradingPlayground a)"
| "index_access a K_emailAlerts = FBool (emailAlerts a)"
| "index_access a K_smsAlerts = FBool (smsAlerts a)"
| "index_access a K_telegramAlerts = FBool (telegramAlerts a)"
| "index_access a K_pushNotifications = FBool (pushNotifications a)"
| "index_access a K_advancedAlerts = FBool (advancedAlerts a)"
| "index_access a K_multiChannelAlerts = FBool (multiChannelAlerts a)"
| "index_access a K_maxTickers = FNum (maxTickers a)"
| "index_access a K_maxSignalsPerMonth = FNum (maxSignalsPerMonth a)"
| "index_access a K_advancedAnalytics = FBool (advancedAnalytics a)"
| "index_access a K_historicalData = FBool (historicalData a)"
| "index_access a K_liveStreaming = FBool (liveStreaming a)"
| "index_access a K_adminAccess = FBool (adminAccess a)"
| "index_access a K_apiAccess = FBool (apiAccess a)"
| "index_access a K_prioritySupport = FBool (prioritySupport a)"
| "index_access a K_customIndicators = FBool (customIndicators a)"
| "index_access a K_whiteLabel = FBool (whiteLabel a)"

text \<open>JavaScript's \<open>Boolean(v)\<close> on these values: a number is truthy unless it is zero.\<close>

fun Boolean_js :: "fieldval \<Rightarrow> bool" where
  "Boolean_js (FBool b) = b"
| "Boolean_js (FNum n) = (n \<noteq> 0)"

text \<open>The three entries of the table \<open>SUBSCRIPTION_FEATURES\<close>.\<close>

definition SUBSCRIPTION_FEATURES_none :: FeatureAccess where
  "SUBSCRIPTION_FEATURES_none =
    \<lparr> basicSignals = False, premiumSignals = False, realTimeAlerts = False,
      trading_dashboard = False,
      basicCharts = False, advancedCharts = False, heatmapAnalysis = False,
      cycleForecasting = False, tradingPlayground = False,
      emailAlerts = False, smsAlerts = False, telegramAlerts = False,
      pushNotifications = False, advancedAlerts = False, multiChannelAlerts = False,
      maxTickers = 0, maxSignalsPerMonth = 0,
      advancedAnalytics = False, historicalData = False, liveStreaming = False,
      adminAccess = False,
      apiAccess = False, prioritySupport = False, customIndicators = False,
      whiteLabel = False \<rparr>"

definition SUBSCRIPTION_FEATURES_pro :: FeatureAccess where
  "SUBSCRIPTION_FEATURES_pro =
    \<lparr> basicSignals = True, premiumSignals = True, realTimeAlerts = True,
      trading_dashboard = True,
      basicCharts = True, advancedCharts = True, heatmapAnalysis = True,
      cycleForecasting = True, tradingPlayground = True,
      emailAlerts = True, smsAlerts = True, telegramAlerts = True,
      pushNotifications = True, advancedAlerts = True, multiChannelAlerts = True,
      maxTickers = - 1, maxSignalsPerMonth = - 1,
      advancedAnalytics = True, historicalData = True, liveStreaming = True,
      adminAccess = False,
      apiAccess = True, prioritySupport = True, customIndicators = True,
      whiteLabel = False \<rparr>"

definition SUBSCRIPTION_FEATURES_elite :: FeatureAccess where
  "SUBSCRIPTION_FEATURES_elite =
    \<lparr> basicSignals = True, premiumSignals = True, realTimeAlerts = True,
      trading_dashboard = True,
      basicCharts = True, advancedCharts = True, heatmapAnalysis = True,
      cycleForecasting = True, tradingPlayground = True,
      emailAlerts = True, smsAlerts = True, telegramAlerts = True,
      pushNotifications = True, advancedAlerts = True, multiChannelAlerts = True,
      maxTickers = - 1, maxSignalsPerMonth = - 1,
      advancedAnalytics = True, historicalData = True, liveStreaming = True,
      adminAccess = False,
      apiAccess = True, prioritySupport = True, customIndicators = True,
      whiteLabel = True \<rparr>"

text \<open>
  \<open>getFeatureAccess(subscriptionTier: string | null = null)\<close>: the tier is an optional
  string, \<open>None\<close> standing for \<open>null\<close>. The comparison is \<open>===\<close> on strings.
\<close>

definition getFeatureAccess :: "string option \<Rightarrow> FeatureAccess" where
  "getFeatureAccess subscriptionTier =
    (if subscriptionTier = Some ''elite'' then SUBSCRIPTION_FEATURES_elite
     else if subscriptionTier = Some ''pro'' then SUBSCRIPTION_FEATURES_pro
     else SUBSCRIPTION_FEATURES_none)"

text \<open>\<open>hasAccess\<close> returns \<open>Boolean(access[requiredFeature])\<close>; its debug log has no
  effect on the result.\<close>

definition hasAccess :: "string option \<Rightarrow> feature \<Rightarrow> bool" where
  "hasAccess userTier requiredFeature =
    (let access = getFeatureAccess userTier;
         hasFeature = Boolean_js (index_access access requiredFeature)
     in hasFeature)"

section \<open>The live streaming page and the application entry point\<close>

text \<open>
  \<open>LiveStreamingPage\<close> is a React function component. Three facts of the language and
  of React shape the model.
  \<^item> Every render runs the component body again. \<open>isStreaming\<close> and
    \<open>connectionAttempts\<close> are \<open>const\<close> bindings of one render, and the functions
    \<open>connectWebSocket\<close>, \<open>onclose\<close> and the \<open>setTimeout\<close> callback are closures
    created in that render: they read the values their render had, not the current state.
    These captured bindings are the record \<open>env\<close>.
  \<^item> \<open>useEffect(..., [isStreaming])\<close> runs again only when \<open>isStreaming\<close> changed: it is
    the only place where \<open>connectWebSocket\<close> of a new render is called. The timer callback
    calls the \<open>connectWebSocket\<close> of its own (old) render.
  \<^item> A state setter with a function argument (\<open>setX(prev => ...)\<close>) is applied to the
    current state; \<open>wsRef\<close> is a mutable reference shared by all renders.
  The browser's side (sockets, pending timers, the console, toasts, HTTP requests) is part of
  the state, so that every effect of a handler is visible in its result.
\<close>

subsection \<open>JavaScript values and exceptions\<close>

datatype jsval =
    JUndefined | JNull | JBool bool | JNum real | JStr string
  | JArr "jsval list" | JObj "(string \<times> jsval) list"

datatype exn = SyntaxError | TypeError | DOMException

text \<open>
  A completed statement sequence either ends normally or throws; in both cases the state
  reached so far is kept, since updates made before a throw are not undone.
\<close>

datatype 'a completion = Normal 'a | Throw exn 'a

text \<open>
  Property read \<open>v.k\<close>, for the keys the page reads (\<open>type\<close>, \<open>data\<close>, \<open>message\<close>,
  \<open>signalType\<close>, \<open>symbol\<close>, \<open>price\<close>, \<open>isActivelyStreaming\<close>): reading from
  \<open>undefined\<close> or \<open>null\<close> throws a TypeError, an object gives its own property or
  \<open>undefined\<close>, every other value gives \<open>undefined\<close>.
  The list of an object holds each of its own properties once.
\<close>

fun get_prop :: "jsval \<Rightarrow> string \<Rightarrow> exn + jsval" where
  "get_prop JUndefined k = Inl TypeError"
| "get_prop JNull k = Inl TypeError"
| "get_prop (JBool b) k = Inr JUndefined"
| "get_prop (JNum n) k = Inr JUndefined"
| "get_prop (JStr s) k = Inr JUndefined"
| "get_prop (JArr vs) k = Inr JUndefined"
| "get_prop (JObj kvs) k = Inr (case map_of kvs k of None \<Rightarrow> JUndefined | Some v \<Rightarrow> v)"

text \<open>
  Conversion of a parsed JSON value to a string (in a template literal) or to a number
  (\<open>Number(v)\<close>) goes through ECMAScript's ToPrimitive. It throws a TypeError exactly for
  an object with an own property \<open>toString\<close>, which in parsed JSON is never callable and
  hides \<open>Object.prototype.toString\<close> (the inherited \<open>valueOf\<close> returns the object
  itself), and for an array with such an element, since an array is converted by joining the
  conversions of its elements.
\<close>

fun to_primitive_throws :: "jsval \<Rightarrow> bool" where
  "to_primitive_throws JUndefined = False"
| "to_primitive_throws JNull = False"
| "to_primitive_throws (JBool b) = False"
| "to_primitive_throws (JNum n) = False"
| "to_primitive_throws (JStr s) = False"
| "to_primitive_throws (JArr vs) = list_ex to_primitive_throws vs"
| "to_primitive_throws (JObj kvs) = (map_of kvs ''toString'' \<noteq> None)"

subsection \<open>State\<close>

record env =
  env_isStreaming :: bool
  env_connectionAttempts :: nat

datatype readyState = CONNECTING | OPEN | CLOSING | CLOSED

text \<open>
  A socket object: either a native WebSocket or the inert object the constructor override
  returns. \<open>sock_handlers\<close> holds the bindings captured by the four handlers that
  \<open>connectWebSocket\<close> assigns to it. \<open>sock_ready\<close> is the state of the browser's
  connection, which decides the events the browser delivers and what \<open>close()\<close> does; it
  is not the object's \<open>readyState\<close> property, which the page never reads. The mock has no
  connection and is kept \<open>CLOSED\<close> (its \<open>readyState\<close> property is \<open>undefined\<close>, as
  \<open>WebSocket.CLOSED\<close> is read from the replacing function).
\<close>

record sock =
  sock_mock :: bool
  sock_ready :: readyState
  sock_handlers :: "env option"

text \<open>A timer armed by \<open>setTimeout\<close>: its delay in milliseconds and the bindings its
  callback captured. The page keeps no handle of it.\<close>

record timer =
  timer_delay :: nat
  timer_env :: env
  timer_pending :: bool

text \<open>
  Toasts are kept by kind. The signal toast's title, description and variant are computed
  from the signal (\<open>signalType\<close>, \<open>symbol\<close>, \<open>price\<close>), which it carries.
\<close>

datatype toast =
    Toast_Connected | Toast_Signal jsval | Toast_ConnectionError | Toast_ConnectionFailed
  | Toast_TestSignalSent | Toast_TestSignalError

datatype console_entry =
    Log_message_received jsval | Log_connection_confirmed jsval
  | Error_parsing_message exn | Error_websocket | Error_create_connection exn
  | Warn_invalid_url

record request =
  req_url :: string
  req_method :: string
  req_symbol :: string
  req_signalType :: string

record page =
  isConnected :: bool
  isStreaming :: bool
  liveSignals :: "jsval list"
  connectionAttempts :: nat
  wsRef :: "nat option"
  sockets :: "sock list"
  timers :: "timer list"
  toasts :: "toast list"
  console :: "console_entry list"
  requests :: "request list"
  refetch_calls :: nat
  uncaught :: "exn list"

text \<open>
  \<open>requests\<close> are the calls of \<open>apiRequest\<close> made by the page's own handlers;
  \<open>refetch_calls\<close> counts the page's calls of the \<open>refetch\<close> function that
  \<open>useQuery\<close> returns. The fetches that the query library makes by itself are not part of
  the page. The state after the first render has the \<open>useState\<close> and \<open>useRef\<close> initial
  values.
\<close>

definition initial_page :: page where
  "initial_page =
    \<lparr> isConnected = False, isStreaming = False, liveSignals = [], connectionAttempts = 0,
      wsRef = None, sockets = [], timers = [], toasts = [], console = [], requests = [],
      refetch_calls = 0, uncaught = [] \<rparr>"

definition render_env :: "page \<Rightarrow> env" where
  "render_env st =
    \<lparr> env_isStreaming = isStreaming st, env_connectionAttempts = connectionAttempts st \<rparr>"

text \<open>An exception that leaves a handler reaches the event loop.\<close>

fun settle :: "page completion \<Rightarrow> page" where
  "settle (Normal st) = st"
| "settle (Throw e st) = st\<lparr>uncaught := uncaught st @ [e]\<rparr>"

subsection \<open>The WebSocket constructor (entry point, \<open>window.WebSocket\<close> override)\<close>

text \<open>
  What the browser does with one construction is an input: the URL does not parse, or it
  parses and the native constructor throws, or the native constructor returns a socket.
\<close>

datatype ctor_outcome = Url_invalid | Native_throws | Native_ok

type_synonym ctor_result = "(exn + sock) \<times> console_entry list"

definition new_URL :: "ctor_outcome \<Rightarrow> exn + unit" where
  "new_URL oc = (case oc of Url_invalid \<Rightarrow> Inl TypeError | _ \<Rightarrow> Inr ())"

definition OriginalWebSocket :: "ctor_outcome \<Rightarrow> exn + sock" where
  "OriginalWebSocket oc =
    (case oc of
       Native_ok \<Rightarrow> Inr \<lparr> sock_mock = False, sock_ready = CONNECTING, sock_handlers = None \<rparr>
     | Url_invalid \<Rightarrow> Inl SyntaxError
     | Native_throws \<Rightarrow> Inl DOMException)"

definition mock_WebSocket :: sock where
  "mock_WebSocket = \<lparr> sock_mock = True, sock_ready = CLOSED, sock_handlers = None \<rparr>"

text \<open>
  The override: \<open>try { new URL(url); return new OriginalWebSocket(url, protocols) }
  catch { console.warn(...); return mock }\<close>. It never throws. The mock's methods do
  nothing; the page never reads a socket's \<open>readyState\<close>, and the browser delivers no
  event to the mock.
\<close>

definition WebSocket_override :: "ctor_outcome \<Rightarrow> ctor_result" where
  "WebSocket_override oc =
    (case new_URL oc of
       Inl e \<Rightarrow> (Inr mock_WebSocket, [Warn_invalid_url])
     | Inr u \<Rightarrow>
        (case OriginalWebSocket oc of
           Inl e \<Rightarrow> (Inr mock_WebSocket, [Warn_invalid_url])
         | Inr ws \<Rightarrow> (Inr ws, [])))"

text \<open>The native constructor without the override, for comparison.\<close>

definition WebSocket_native :: "ctor_outcome \<Rightarrow> ctor_result" where
  "WebSocket_native oc = (OriginalWebSocket oc, [])"

subsection \<open>The Signal Buffer\<close>

text \<open>The updater \<open>prev => [signal, ...prev.slice(0, 49)]\<close>.\<close>

definition push_signal :: "'a \<Rightarrow> 'a list \<Rightarrow> 'a list" where
  "push_signal signal prev = signal # take 49 prev"

definition push_all :: "'a list \<Rightarrow> 'a list \<Rightarrow> 'a list" where
  "push_all signals buf = foldl (\<lambda>prev signal. push_signal signal prev) buf signals"

subsection \<open>Socket handlers\<close>

text \<open>\<open>onopen\<close>: \<open>setIsConnected(true); setConnectionAttempts(0); toast("Connected")\<close>.\<close>

definition onopen :: "page \<Rightarrow> page" where
  "onopen st =
    st\<lparr>isConnected := True, connectionAttempts := 0, toasts := toasts st @ [Toast_Connected]\<rparr>"

text \<open>
  The argument of the toast of a signal frame is evaluated in order. The title,
  \<open>signal.signalType.toUpperCase()\<close>, throws a TypeError unless \<open>signal\<close> can be read
  from and \<open>signalType\<close> is a string. The description converts \<open>signal.symbol\<close> to a
  string and \<open>signal.price\<close> to a number (\<open>Number(signal.price).toLocaleString()\<close>),
  which throws where ToPrimitive does. The comparison with \<open>'buy'\<close> cannot throw.
\<close>

definition signal_toast :: "jsval \<Rightarrow> exn + toast" where
  "signal_toast signal =
    (case get_prop signal ''signalType'' of
       Inl e \<Rightarrow> Inl e
     | Inr t \<Rightarrow>
        (case t of
           JStr u \<Rightarrow>
            (case get_prop signal ''symbol'' of
               Inl e \<Rightarrow> Inl e
             | Inr symbol \<Rightarrow>
                if to_primitive_throws symbol then Inl TypeError
                else
                  (case get_prop signal ''price'' of
                     Inl e \<Rightarrow> Inl e
                   | Inr price \<Rightarrow>
                      if to_primitive_throws price then Inl TypeError
                      else Inr (Toast_Signal signal)))
         | _ \<Rightarrow> Inl TypeError))"

text \<open>
  The body of the \<open>try\<close> block of \<open>onmessage\<close>. \<open>JSON_parse\<close> is the platform's
  \<open>JSON.parse\<close>, \<open>None\<close> when it throws its SyntaxError. The cast
  \<open>message.data as LiveSignal\<close> checks nothing at run time.
\<close>

definition onmessage_try :: "(string \<Rightarrow> jsval option) \<Rightarrow> string \<Rightarrow> page \<Rightarrow> page completion" where
  "onmessage_try JSON_parse data st =
    (case JSON_parse data of
       None \<Rightarrow> Throw SyntaxError st
     | Some message \<Rightarrow>
        (let st1 = st\<lparr>console := console st @ [Log_message_received message]\<rparr> in
         case get_prop message ''type'' of
           Inl e \<Rightarrow> Throw e st1
         | Inr ty \<Rightarrow>
            if ty = JStr ''signal'' then
              (case get_prop message ''data'' of
                 Inl e \<Rightarrow> Throw e st1
               | Inr signal \<Rightarrow>
                  (let st2 = st1\<lparr>liveSignals := push_signal signal (liveSignals st1)\<rparr> in
                   case signal_toast signal of
                     Inl e \<Rightarrow> Throw e st2
                   | Inr t \<Rightarrow> Normal (st2\<lparr>toasts := toasts st2 @ [t]\<rparr>)))
            else if ty = JStr ''connection'' then
              (case get_prop message ''message'' of
                 Inl e \<Rightarrow> Throw e st1
               | Inr m \<Rightarrow> Normal (st1\<lparr>console := console st1 @ [Log_connection_confirmed m]\<rparr>))
            else Normal st1))"

text \<open>\<open>onmessage\<close>: the \<open>try\<close> block with its \<open>catch\<close>, which only logs.\<close>

definition onmessage :: "(string \<Rightarrow> jsval option) \<Rightarrow> string \<Rightarrow> page \<Rightarrow> page completion" where
  "onmessage JSON_parse data st =
    (case onmessage_try JSON_parse data st of
       Normal st' \<Rightarrow> Normal st'
     | Throw e st' \<Rightarrow> Normal (st'\<lparr>console := console st' @ [Error_parsing_message e]\<rparr>))"

text \<open>\<open>setTimeout(callback, delay)\<close> with the reconnect callback of the render \<open>e\<close>.\<close>

definition setTimeout :: "env \<Rightarrow> nat \<Rightarrow> page \<Rightarrow> page" where
  "setTimeout e delay st =
    st\<lparr>timers := timers st @ [\<lparr> timer_delay = delay, timer_env = e, timer_pending = True \<rparr>]\<rparr>"

text \<open>
  \<open>onclose\<close>: \<open>isStreaming\<close> and \<open>connectionAttempts\<close> are the captured bindings;
  the delay is \<open>Math.pow(2, connectionAttempts) * 1000\<close>.
\<close>

definition onclose :: "env \<Rightarrow> page \<Rightarrow> page" where
  "onclose e st =
    (let st1 = st\<lparr>isConnected := False\<rparr> in
     if env_isStreaming e \<and> env_connectionAttempts e < 5
     then setTimeout e (2 ^ env_connectionAttempts e * 1000) st1
     else st1)"

definition onerror :: "page \<Rightarrow> page" where
  "onerror st =
    st\<lparr>console := console st @ [Error_websocket],
       toasts := toasts st @ [Toast_ConnectionError]\<rparr>"

subsection \<open>\<open>connectWebSocket\<close> and \<open>disconnectWebSocket\<close>\<close>

text \<open>
  The \<open>try\<close> block: \<open>new_WebSocket\<close> is the result of evaluating
  \<open>new WebSocket(wsUrl)\<close> (the socket or the exception, and what the constructor logged).
  The new socket is stored in \<open>wsRef.current\<close> and gets the four handlers of this render.
\<close>

definition connectWebSocket_try :: "ctor_result \<Rightarrow> env \<Rightarrow> page \<Rightarrow> page completion" where
  "connectWebSocket_try new_WebSocket e st =
    (let st1 = st\<lparr>console := console st @ snd new_WebSocket\<rparr> in
     case fst new_WebSocket of
       Inl ex \<Rightarrow> Throw ex st1
     | Inr ws \<Rightarrow>
        Normal (st1\<lparr>sockets := sockets st1 @ [ws\<lparr>sock_handlers := Some e\<rparr>],
                   wsRef := Some (length (sockets st1))\<rparr>))"

definition connectWebSocket :: "ctor_result \<Rightarrow> env \<Rightarrow> page \<Rightarrow> page completion" where
  "connectWebSocket new_WebSocket e st =
    (case connectWebSocket_try new_WebSocket e st of
       Normal st' \<Rightarrow> Normal st'
     | Throw ex st' \<Rightarrow>
        Normal (st'\<lparr>console := console st' @ [Error_create_connection ex],
                   toasts := toasts st' @ [Toast_ConnectionFailed]\<rparr>))"

text \<open>The timer callback: \<open>setConnectionAttempts(prev => prev + 1); connectWebSocket()\<close>,
  the latter being the closure of the render that armed the timer.\<close>

definition reconnect_callback :: "ctor_result \<Rightarrow> env \<Rightarrow> page \<Rightarrow> page completion" where
  "reconnect_callback new_WebSocket e st =
    connectWebSocket new_WebSocket e (st\<lparr>connectionAttempts := connectionAttempts st + 1\<rparr>)"

text \<open>The socket's \<open>close()\<close> method: a no-op on the mock object and on a socket that is
  closing or closed; otherwise the socket starts closing.\<close>

definition close_method :: "sock \<Rightarrow> sock" where
  "close_method ws =
    (if sock_mock ws then ws
     else if sock_ready ws = CONNECTING \<or> sock_ready ws = OPEN then ws\<lparr>sock_ready := CLOSING\<rparr>
     else ws)"

definition disconnectWebSocket :: "page \<Rightarrow> page" where
  "disconnectWebSocket st =
    (let st1 = (case wsRef st of
                  None \<Rightarrow> st
                | Some i \<Rightarrow> st\<lparr>sockets := (sockets st)[i := close_method (sockets st ! i)],
                                wsRef := None\<rparr>)
     in st1\<lparr>isConnected := False\<rparr>)"

subsection \<open>The control surface\<close>

definition toggleStreaming :: "page \<Rightarrow> page" where
  "toggleStreaming st = st\<lparr>isStreaming := \<not> isStreaming st\<rparr>"

text \<open>
  The effect on \<open>[isStreaming]\<close>, run after the render that follows a change of
  \<open>isStreaming\<close>: first the cleanup of the previous run (\<open>disconnectWebSocket\<close>), then
  the body with the bindings of the new render.
\<close>

definition streaming_effect :: "ctor_result \<Rightarrow> page \<Rightarrow> page" where
  "streaming_effect new_WebSocket st =
    (let e = render_env st; st1 = disconnectWebSocket st in
     if env_isStreaming e then settle (connectWebSocket new_WebSocket e st1)
     else disconnectWebSocket st1)"

text \<open>
  \<open>sendTestSignal\<close>: \<open>random\<close> is the value of \<open>Math.random()\<close> and \<open>ok\<close> tells
  whether the promise of \<open>apiRequest\<close> resolved. \<open>apiRequest\<close> (\<open>lib/queryClient\<close>) is
  called once; the call is recorded as the request.
\<close>

definition sendTestSignal :: "real \<Rightarrow> bool \<Rightarrow> page \<Rightarrow> page" where
  "sendTestSignal random ok st =
    (let st1 = st\<lparr>requests := requests st @
                  [\<lparr> req_url = ''/api/admin/live-streaming/test'', req_method = ''POST'',
                     req_symbol = ''BTCUSDT'',
                     req_signalType = (if random > 0.5 then ''buy'' else ''sell'') \<rparr>]\<rparr>
     in if ok then st1\<lparr>toasts := toasts st1 @ [Toast_TestSignalSent]\<rparr>
        else st1\<lparr>toasts := toasts st1 @ [Toast_TestSignalError]\<rparr>)"

text \<open>The Refresh Status button: \<open>onClick={() => refetch()}\<close>.\<close>

definition refetch :: "page \<Rightarrow> page" where
  "refetch st = st\<lparr>refetch_calls := refetch_calls st + 1\<rparr>"

subsection \<open>The options of the status query\<close>

text \<open>
  JavaScript truthiness, and the optional read \<open>data?.isActivelyStreaming\<close>, which gives
  \<open>undefined\<close> on \<open>undefined\<close> and \<open>null\<close>.
\<close>

fun truthy :: "jsval \<Rightarrow> bool" where
  "truthy JUndefined = False"
| "truthy JNull = False"
| "truthy (JBool b) = b"
| "truthy (JNum n) = (n \<noteq> 0)"
| "truthy (JStr s) = (s \<noteq> [])"
| "truthy (JArr vs) = True"
| "truthy (JObj kvs) = True"

definition optional_prop :: "jsval \<Rightarrow> string \<Rightarrow> jsval" where
  "optional_prop v k = (case get_prop v k of Inl e \<Rightarrow> JUndefined | Inr w \<Rightarrow> w)"

text \<open>
  \<open>refetchInterval: (data) => (data?.isActivelyStreaming || isStreaming) ? 30000 : false\<close>,
  with \<open>isStreaming\<close> the binding of the render; \<open>None\<close> stands for \<open>false\<close>. The
  other options are the query key, the query function, \<open>refetchOnWindowFocus: false\<close> and
  \<open>staleTime: 15000\<close>; the query is given no \<open>enabled\<close> option. What the query library
  does with the options (when it fetches) is not part of the page.
\<close>

definition refetchInterval :: "bool \<Rightarrow> jsval \<Rightarrow> nat option" where
  "refetchInterval streaming data =
    (if truthy (optional_prop data ''isActivelyStreaming'') \<or> streaming then Some 30000
     else None)"

subsection \<open>Events\<close>

text \<open>
  One event is one turn of the browser's event loop: a click, an event of the socket with
  index \<open>i\<close> in \<open>sockets\<close>, or the firing of timer \<open>i\<close>. A socket event is delivered
  only in a ready state in which the browser can deliver it, and never to the mock object;
  a timer fires once. \<open>step\<close> is the handler's turn and, for the toggle, the effect
  that the change of \<open>isStreaming\<close> triggers. The render that follows a state change is
  not part of \<open>step\<close>: it computes the view from the state, and what happens when it
  throws (reading a field of a stored signal that is not a \<open>LiveSignal\<close>) depends on
  error boundaries outside this page.
\<close>

datatype event =
    Click_toggle ctor_outcome
  | Click_test real bool
  | Click_refresh
  | Ws_open nat
  | Ws_message nat string
  | Ws_error nat
  | Ws_close nat
  | Timeout nat ctor_outcome

definition native_socket :: "page \<Rightarrow> nat \<Rightarrow> sock option" where
  "native_socket st i =
    (if i < length (sockets st) \<and> \<not> sock_mock (sockets st ! i) then Some (sockets st ! i)
     else None)"

definition set_ready :: "nat \<Rightarrow> readyState \<Rightarrow> page \<Rightarrow> page" where
  "set_ready i r st = st\<lparr>sockets := (sockets st)[i := (sockets st ! i)\<lparr>sock_ready := r\<rparr>]\<rparr>"

fun step :: "(string \<Rightarrow> jsval option) \<Rightarrow> page \<Rightarrow> event \<Rightarrow> page" where
  "step P st (Click_toggle oc) = streaming_effect (WebSocket_override oc) (toggleStreaming st)"
| "step P st (Click_test random ok) = sendTestSignal random ok st"
| "step P st Click_refresh = refetch st"
| "step P st (Ws_open i) =
    (case native_socket st i of
       None \<Rightarrow> st
     | Some ws \<Rightarrow> if sock_ready ws = CONNECTING then onopen (set_ready i OPEN st) else st)"
| "step P st (Ws_message i data) =
    (case native_socket st i of
       None \<Rightarrow> st
     | Some ws \<Rightarrow>
        if sock_ready ws = OPEN \<or> sock_ready ws = CLOSING then settle (onmessage P data st)
        else st)"
| "step P st (Ws_error i) =
    (case native_socket st i of
       None \<Rightarrow> st
     | Some ws \<Rightarrow> if sock_ready ws \<noteq> CLOSED then onerror st else st)"
| "step P st (Ws_close i) =
    (case native_socket st i of
       None \<Rightarrow> st
     | Some ws \<Rightarrow>
        (case sock_handlers ws of
           None \<Rightarrow> st
         | Some e \<Rightarrow> if sock_ready ws \<noteq> CLOSED then onclose e (set_ready i CLOSED st) else st))"
| "step P st (Timeout i oc) =
    (if i < length (timers st) \<and> timer_pending (timers st ! i)
     then settle (reconnect_callback (WebSocket_override oc) (timer_env (timers st ! i))
                   (st\<lparr>timers := (timers st)[i := (timers st ! i)\<lparr>timer_pending := False\<rparr>]\<rparr>))
     else st)"

definition run :: "(string \<Rightarrow> jsval option) \<Rightarrow> event list \<Rightarrow> page \<Rightarrow> page" where
  "run P evs st = foldl (step P) st evs"

definition pending_timers :: "page \<Rightarrow> timer list" where
  "pending_timers st = filter timer_pending (timers st)"

subsection \<open>Traces\<close>

text \<open>
  Streaming is switched on and each of the first \<open>n\<close> connections fails to open: the
  browser delivers the socket's error event and then its close event, and the reconnect timer
  armed by the close fires.
\<close>

definition failed_reconnects :: "nat \<Rightarrow> event list" where
  "failed_reconnects n =
    Click_toggle Native_ok #
    concat (map (\<lambda>i. [Ws_error i, Ws_close i, Timeout i Native_ok]) [0..<n])"

text \<open>
  What \<open>JSON.parse\<close> returns on three frames that carry the \<open>signal\<close> tag and a
  payload that is not a \<open>LiveSignal\<close>; every other text stands for a frame that does
  not parse.
\<close>

definition sample_parse :: "string \<Rightarrow> jsval option" where
  "sample_parse d =
    (if d = ''{\"type\":\"signal\"}'' then Some (JObj [(''type'', JStr ''signal'')])
     else if d = ''{\"type\":\"signal\",\"data\":null}''
       then Some (JObj [(''type'', JStr ''signal''), (''data'', JNull)])
     else if d = ''{\"type\":\"signal\",\"data\":{\"symbol\":\"BTCUSDT\"}}''
       then Some (JObj [(''type'', JStr ''signal''),
                        (''data'', JObj [(''symbol'', JStr ''BTCUSDT'')])])
     else None)"

section \<open>Properties of feature access\<close>

lemma index_access_none:
  "Boolean_js (index_access SUBSCRIPTION_FEATURES_none f) = False"
  by (cases f) (simp_all add: SUBSCRIPTION_FEATURES_none_def)

lemma adminAccess_table:
  "adminAccess SUBSCRIPTION_FEATURES_none = False"
  "adminAccess SUBSCRIPTION_FEATURES_pro = False"
  "adminAccess SUBSCRIPTION_FEATURES_elite = False"
  by (simp_all add: SUBSCRIPTION_FEATURES_none_def SUBSCRIPTION_FEATURES_pro_def
      SUBSCRIPTION_FEATURES_elite_def)

lemma hasAccess_admin_any: "hasAccess u K_adminAccess = False"
  by (simp add: hasAccess_def getFeatureAccess_def adminAccess_table)

text \<open>
  Claim C10. Every tier other than \<open>"elite"\<close> and \<open>"pro"\<close> (including \<open>null\<close>,
  \<open>"basic"\<close>, \<open>"premium"\<close> and any unrecognised string) is mapped by
  \<open>getFeatureAccess\<close> to the \<open>none\<close> record, so \<open>hasAccess\<close> is false for every
  feature key and both numeric limits are 0; and \<open>hasAccess(t, 'adminAccess')\<close> is
  false for every tier, \<open>"elite"\<close> and \<open>"pro"\<close> included.
\<close>

theorem non_paying_tier_has_no_access:
  assumes "t \<noteq> Some ''elite''" and "t \<noteq> Some ''pro''"
  shows "getFeatureAccess t = SUBSCRIPTION_FEATURES_none
       \<and> (\<forall>f. hasAccess t f = False)
       \<and> maxTickers (getFeatureAccess t) = 0
       \<and> maxSignalsPerMonth (getFeatureAccess t) = 0
       \<and> (\<forall>u. hasAccess u K_adminAccess = False)"
proof -
  from assms have ga: "getFeatureAccess t = SUBSCRIPTION_FEATURES_none"
    by (simp add: getFeatureAccess_def)
  have "\<forall>f. hasAccess t f = False"
    by (simp add: hasAccess_def ga index_access_none)
  moreover have "maxTickers (getFeatureAccess t) = 0"
    and "maxSignalsPerMonth (getFeatureAccess t) = 0"
    by (simp_all add: ga SUBSCRIPTION_FEATURES_none_def)
  moreover have "\<forall>u. hasAccess u K_adminAccess = False"
    by (simp add: hasAccess_admin_any)
  ultimately show ?thesis using ga by simp
qed

theorem non_paying_tier_has_no_access_witness:
  "Some ''basic'' \<noteq> Some ''elite'' \<and> Some ''basic'' \<noteq> Some ''pro''
   \<and> getFeatureAccess (Some ''basic'') = SUBSCRIPTION_FEATURES_none
   \<and> hasAccess (Some ''basic'') K_liveStreaming = False
   \<and> hasAccess None K_maxTickers = False
   \<and> maxTickers (getFeatureAccess (Some ''basic'')) = 0
   \<and> maxSignalsPerMonth (getFeatureAccess (Some ''basic'')) = 0
   \<and> hasAccess (Some ''elite'') K_adminAccess = False"
proof -
  have h1: "Some ''basic'' \<noteq> Some ''elite''" by simp
  have h2: "Some ''basic'' \<noteq> Some ''pro''" by simp
  have n1: "(None :: string option) \<noteq> Some ''elite''" by simp
  have n2: "(None :: string option) \<noteq> Some ''pro''" by simp
  show ?thesis
    using h1 h2 non_paying_tier_has_no_access [OF h1 h2]
      non_paying_tier_has_no_access [OF n1 n2]
    by blast
qed

section \<open>Properties of the Signal Buffer\<close>

lemma push_all_snoc: "push_all (es @ [e]) buf = push_signal e (push_all es buf)"
  by (simp add: push_all_def)

lemma push_all_take:
  "es \<noteq> [] \<or> length buf \<le> 50 \<Longrightarrow> push_all es buf = take 50 (rev es @ buf)"
proof (induction es rule: rev_induct)
  case Nil
  then show ?case by (simp add: push_all_def)
next
  case (snoc e es)
  show ?case
  proof (cases "es = []")
    case True
    then show ?thesis by (simp add: push_all_def push_signal_def take_Cons')
  next
    case False
    with snoc.IH have "push_all es buf = take 50 (rev es @ buf)" by simp
    then show ?thesis
      by (simp add: push_all_snoc push_signal_def take_Cons' min_def)
  qed
qed

lemma push_all_empty: "push_all es [] = take 50 (rev es)"
  using push_all_take [of es "[]"] by simp

lemma push_signal_length: "length buf \<le> 50 \<Longrightarrow> length (push_signal x buf) \<le> 50"
  by (simp add: push_signal_def)

lemma onmessage_liveSignals_length:
  assumes "length (liveSignals st) \<le> 50"
  shows "length (liveSignals (settle (onmessage P d st))) \<le> 50"
  using assms
  by (auto simp add: onmessage_def onmessage_try_def Let_def push_signal_def
      split: option.splits sum.splits)

lemma connectWebSocket_liveSignals:
  "liveSignals (settle (connectWebSocket r e st)) = liveSignals st"
  by (cases r) (auto simp add: connectWebSocket_def connectWebSocket_try_def Let_def split: sum.splits)

lemma disconnectWebSocket_liveSignals:
  "liveSignals (disconnectWebSocket st) = liveSignals st"
  by (simp add: disconnectWebSocket_def split: option.splits)

lemma step_liveSignals_length:
  assumes "length (liveSignals st) \<le> 50"
  shows "length (liveSignals (step P st ev)) \<le> 50"
proof (cases ev)
  case (Click_toggle oc)
  then show ?thesis using assms
    by (simp add: streaming_effect_def Let_def connectWebSocket_liveSignals
        disconnectWebSocket_liveSignals toggleStreaming_def)
next
  case (Click_test r ok)
  then show ?thesis using assms by (simp add: sendTestSignal_def Let_def)
next
  case Click_refresh
  then show ?thesis using assms by (simp add: refetch_def)
next
  case (Ws_open i)
  then show ?thesis using assms
    by (simp add: onopen_def set_ready_def split: option.splits)
next
  case (Ws_message i d)
  then show ?thesis using assms onmessage_liveSignals_length [OF assms, of P d]
    by (simp split: option.splits)
next
  case (Ws_error i)
  then show ?thesis using assms by (simp add: onerror_def split: option.splits)
next
  case (Ws_close i)
  then show ?thesis using assms
    by (simp add: onclose_def setTimeout_def set_ready_def Let_def split: option.splits)
next
  case (Timeout i oc)
  then show ?thesis using assms
    by (simp add: reconnect_callback_def connectWebSocket_liveSignals)
qed

lemma run_liveSignals_length:
  "length (liveSignals st) \<le> 50 \<Longrightarrow> length (liveSignals (run P evs st)) \<le> 50"
  unfolding run_def
  by (induction evs arbitrary: st) (simp_all add: step_liveSignals_length)

lemma page_buffer_bounded: "length (liveSignals (run P evs initial_page)) \<le> 50"
  by (rule run_liveSignals_length) (simp add: initial_page_def)

lemma onmessage_signal_pushes:
  assumes "P d = Some m" and "get_prop m ''type'' = Inr (JStr ''signal'')"
    and "get_prop m ''data'' = Inr signal"
  shows "liveSignals (settle (onmessage P d st)) = push_signal signal (liveSignals st)"
  using assms
  by (simp add: onmessage_def onmessage_try_def Let_def split: sum.splits)

text \<open>
  Claim C1. For every sequence of pushes on the (initially empty) Signal Buffer the buffer
  holds at most 50 events and the event at index 0 is the one pushed last; in particular,
  after 51 distinct events the buffer holds exactly 50, the first-pushed event is gone and
  the 51st is at index 0. The page changes \<open>liveSignals\<close> through this updater only, so
  the bound holds after every sequence of events of the page.
\<close>

theorem signal_buffer_bound:
  "length (push_all es []) \<le> 50
   \<and> (es \<noteq> [] \<longrightarrow> push_all es [] ! 0 = last es)
   \<and> (distinct es \<and> length es = 51 \<longrightarrow>
        length (push_all es []) = 50 \<and> hd es \<notin> set (push_all es []) \<and> push_all es [] ! 0 = es ! 50)
   \<and> length (liveSignals (run P evs initial_page)) \<le> 50"
proof -
  have a: "length (push_all es []) \<le> 50" by (simp add: push_all_empty)
  have b: "push_all es [] ! 0 = last es" if "es \<noteq> []"
    using that by (simp add: push_all_empty hd_rev flip: hd_conv_nth)
  have c: "length (push_all es []) = 50 \<and> hd es \<notin> set (push_all es []) \<and> push_all es [] ! 0 = es ! 50"
    if d: "distinct es" and l: "length es = 51"
  proof -
    from l have ne: "es \<noteq> []" by auto
    have len: "length (push_all es []) = 50" using l by (simp add: push_all_empty)
    have "rev es = take 50 (rev es) @ drop 50 (rev es)" by simp
    moreover have "drop 50 (rev es) = [hd es]"
    proof -
      have "drop 50 (rev es) = rev (take 1 es)" using l by (simp add: drop_rev)
      also have "\<dots> = [hd es]" using ne by (cases es) simp_all
      finally show ?thesis .
    qed
    ultimately have "rev es = take 50 (rev es) @ [hd es]" by simp
    moreover have "distinct (rev es)" using d by simp
    ultimately have "distinct (take 50 (rev es) @ [hd es])" by simp
    then have notin: "hd es \<notin> set (push_all es [])" by (simp add: push_all_empty)
    have "push_all es [] ! 0 = last es" using b ne by simp
    also have "\<dots> = es ! 50" using l ne by (simp add: last_conv_nth)
    finally show ?thesis using len notin by simp
  qed
  from a b c page_buffer_bounded [of P evs] show ?thesis by blast
qed

theorem signal_buffer_bound_witness:
  "distinct [1..<52] \<and> length [1..<52] = 51
   \<and> length (push_all [1..<52] []) = 50
   \<and> hd [1..<52] \<notin> set (push_all [1..<52] [])
   \<and> push_all [1..<52] [] ! 0 = 51"
proof -
  have h: "distinct [1..<52] \<and> length [1..<52] = 51" by simp
  have n: "[1..<52] ! 50 = 51" by simp
  from signal_buffer_bound [of "[1..<52]"] h n show ?thesis by simp
qed

section \<open>Inbound frames\<close>

lemma onmessage_parse_failure:
  "JSON_parse frame = None \<Longrightarrow>
   onmessage JSON_parse frame st = Normal (st\<lparr>console := console st @ [Error_parsing_message SyntaxError]\<rparr>)"
  by (simp add: onmessage_def onmessage_try_def)

lemma onmessage_not_signal:
  assumes "JSON_parse frame = Some m" and "get_prop m ''type'' \<noteq> Inr (JStr ''signal'')"
  shows "\<exists>logs. onmessage JSON_parse frame st = Normal (st\<lparr>console := console st @ logs\<rparr>)"
proof (cases "get_prop m ''type''")
  case (Inl e)
  with assms(1) have "onmessage JSON_parse frame st =
      Normal (st\<lparr>console := console st @ [Log_message_received m, Error_parsing_message e]\<rparr>)"
    by (simp add: onmessage_def onmessage_try_def)
  then show ?thesis by blast
next
  case (Inr ty)
  with assms(2) have ns: "ty \<noteq> JStr ''signal''" by simp
  show ?thesis
  proof (cases "ty = JStr ''connection''")
    case True
    from Inr obtain v where v: "get_prop m ''message'' = Inr v"
      by (cases m) simp_all
    with assms(1) Inr True have "onmessage JSON_parse frame st =
      Normal (st\<lparr>console := console st @ [Log_message_received m, Log_connection_confirmed v]\<rparr>)"
      by (simp add: onmessage_def onmessage_try_def)
    then show ?thesis by blast
  next
    case False
    with assms(1) Inr ns have "onmessage JSON_parse frame st =
      Normal (st\<lparr>console := console st @ [Log_message_received m]\<rparr>)"
      by (simp add: onmessage_def onmessage_try_def)
    then show ?thesis by blast
  qed
qed

text \<open>
  A frame that \<open>JSON.parse\<close> rejects, or whose parsed value has no \<open>type\<close> equal to
  \<open>'signal'\<close> (no tag, an unrecognised tag, the \<open>connection\<close> tag, or a value such as
  \<open>null\<close> that cannot be read from), changes nothing but the console: the connection
  state, the Signal Buffer, the retry counter, the timers and the toasts stay as they were,
  the handler ends normally and nothing reaches the event loop as an exception.
\<close>

lemma frame_without_signal_tag_is_discarded:
  assumes "JSON_parse frame = None
         \<or> (\<exists>m. JSON_parse frame = Some m \<and> get_prop m ''type'' \<noteq> Inr (JStr ''signal''))"
  shows "\<exists>st'. onmessage JSON_parse frame st = Normal st'
         \<and> (\<exists>logs. st' = st\<lparr>console := console st @ logs\<rparr>)
         \<and> isConnected st' = isConnected st
         \<and> liveSignals st' = liveSignals st
         \<and> connectionAttempts st' = connectionAttempts st
         \<and> timers st' = timers st
         \<and> toasts st' = toasts st
         \<and> uncaught (settle (onmessage JSON_parse frame st)) = uncaught st"
proof -
  from assms have "\<exists>logs. onmessage JSON_parse frame st = Normal (st\<lparr>console := console st @ logs\<rparr>)"
    using onmessage_parse_failure [of JSON_parse frame st] onmessage_not_signal [of JSON_parse frame _ st]
    by blast
  then obtain logs where "onmessage JSON_parse frame st = Normal (st\<lparr>console := console st @ logs\<rparr>)" ..
  then show ?thesis by auto
qed

lemma frame_without_signal_tag_is_discarded_instance:
  "(\<lambda>d. if d = ''ping'' then Some (JObj [(''type'', JStr ''ping'')]) else None) ''{oops'' = None
   \<and> (\<exists>st'. onmessage (\<lambda>d. if d = ''ping'' then Some (JObj [(''type'', JStr ''ping'')]) else None)
               ''{oops'' initial_page = Normal st'
        \<and> isConnected st' = isConnected initial_page
        \<and> liveSignals st' = liveSignals initial_page
        \<and> connectionAttempts st' = connectionAttempts initial_page
        \<and> toasts st' = toasts initial_page)
   \<and> get_prop (JObj [(''type'', JStr ''ping'')]) ''type'' \<noteq> Inr (JStr ''signal'')
   \<and> (\<exists>st'. onmessage (\<lambda>d. if d = ''ping'' then Some (JObj [(''type'', JStr ''ping'')]) else None)
               ''ping'' initial_page = Normal st'
        \<and> isConnected st' = isConnected initial_page
        \<and> liveSignals st' = liveSignals initial_page
        \<and> connectionAttempts st' = connectionAttempts initial_page
        \<and> toasts st' = toasts initial_page)"
proof -
  let ?P = "\<lambda>d. if d = ''ping'' then Some (JObj [(''type'', JStr ''ping'')]) else None"
  have h1: "?P ''{oops'' = None" by simp
  then have d1: "?P ''{oops'' = None
     \<or> (\<exists>m. ?P ''{oops'' = Some m \<and> get_prop m ''type'' \<noteq> Inr (JStr ''signal''))" by blast
  have h2: "get_prop (JObj [(''type'', JStr ''ping'')]) ''type'' \<noteq> Inr (JStr ''signal'')"
    by simp
  then have d2: "?P ''ping'' = None
     \<or> (\<exists>m. ?P ''ping'' = Some m \<and> get_prop m ''type'' \<noteq> Inr (JStr ''signal''))" by simp
  from frame_without_signal_tag_is_discarded [of ?P "''{oops''" initial_page, OF d1]
    frame_without_signal_tag_is_discarded [of ?P "''ping''" initial_page, OF d2] h1 h2
  show ?thesis by blast
qed

text \<open>
  A frame with the \<open>signal\<close> tag is pushed onto the Signal Buffer before its toast is
  built. When building the toast throws, the \<open>catch\<close> logs the error, and the payload
  stays in the buffer.
\<close>

lemma undecodable_signal_still_pushed:
  assumes "P d = Some m" and "get_prop m ''type'' = Inr (JStr ''signal'')"
    and "get_prop m ''data'' = Inr signal" and "signal_toast signal = Inl e"
  shows "\<exists>st'. onmessage P d st = Normal st'
       \<and> liveSignals st' = push_signal signal (liveSignals st)
       \<and> toasts st' = toasts st
       \<and> console st' = console st @ [Log_message_received m, Error_parsing_message e]"
  using assms by (simp add: onmessage_def onmessage_try_def Let_def)

text \<open>
  Claim C5. The claim: a frame that fails to parse as valid structured data is discarded,
  leaving the connection state, the Signal Buffer and the retry state unchanged, with no
  failure and no error shown. This holds for a frame that \<open>JSON.parse\<close> rejects and for
  a frame without the \<open>signal\<close> tag (lemma \<open>frame_without_signal_tag_is_discarded\<close>),
  but not for a frame that carries the \<open>signal\<close> tag and a payload that does not decode
  as a \<open>LiveSignal\<close>. On a connected page the frame \<open>{"type":"signal"}\<close> puts
  \<open>undefined\<close> into the Signal Buffer, and only then does the handler's \<open>catch\<close> log
  its parse error; a \<open>null\<close> payload and a payload without \<open>signalType\<close> are stored
  in the same way.
\<close>

theorem undecodable_signal_reaches_buffer:
  "liveSignals (run sample_parse
      [Click_toggle Native_ok, Ws_open 0, Ws_message 0 ''{\"type\":\"signal\"}''] initial_page)
     = [JUndefined]
   \<and> console (run sample_parse
      [Click_toggle Native_ok, Ws_open 0, Ws_message 0 ''{\"type\":\"signal\"}''] initial_page)
     = [Log_message_received (JObj [(''type'', JStr ''signal'')]),
        Error_parsing_message TypeError]
   \<and> toasts (run sample_parse
      [Click_toggle Native_ok, Ws_open 0, Ws_message 0 ''{\"type\":\"signal\"}''] initial_page)
     = [Toast_Connected]
   \<and> liveSignals (run sample_parse
      [Click_toggle Native_ok, Ws_open 0, Ws_message 0 ''{\"type\":\"signal\",\"data\":null}'']
      initial_page) = [JNull]
   \<and> liveSignals (run sample_parse
      [Click_toggle Native_ok, Ws_open 0,
       Ws_message 0 ''{\"type\":\"signal\",\"data\":{\"symbol\":\"BTCUSDT\"}}'',
       Ws_message 0 ''{\"type\":\"signal\"}''] initial_page)
     = [JUndefined, JObj [(''symbol'', JStr ''BTCUSDT'')]]"
  by code_simp

section \<open>The test signal\<close>

text \<open>
  Claim C9. \<open>sendTestSignal\<close> issues exactly one POST to the test-signal endpoint, for
  \<open>BTCUSDT\<close> and with the direction drawn from \<open>Math.random()\<close> (the function takes no
  direction), shows exactly one toast (success or failure) and leaves the connection state,
  the retry counter, the Signal Buffer, the socket reference and the timers unchanged.
\<close>

theorem sendTestSignal_frame:
  "requests (sendTestSignal random ok st) =
     requests st @ [\<lparr> req_url = ''/api/admin/live-streaming/test'', req_method = ''POST'',
                      req_symbol = ''BTCUSDT'',
                      req_signalType = (if random > 0.5 then ''buy'' else ''sell'') \<rparr>]
   \<and> toasts (sendTestSignal random ok st) =
       toasts st @ [if ok then Toast_TestSignalSent else Toast_TestSignalError]
   \<and> isConnected (sendTestSignal random ok st) = isConnected st
   \<and> connectionAttempts (sendTestSignal random ok st) = connectionAttempts st
   \<and> liveSignals (sendTestSignal random ok st) = liveSignals st
   \<and> isStreaming (sendTestSignal random ok st) = isStreaming st
   \<and> wsRef (sendTestSignal random ok st) = wsRef st
   \<and> sockets (sendTestSignal random ok st) = sockets st
   \<and> timers (sendTestSignal random ok st) = timers st
   \<and> uncaught (sendTestSignal random ok st) = uncaught st"
  by (simp add: sendTestSignal_def Let_def)

section \<open>Reconnecting after a close\<close>

lemmas page_defs =
  run_def initial_page_def streaming_effect_def toggleStreaming_def render_env_def
  disconnectWebSocket_def connectWebSocket_def connectWebSocket_try_def WebSocket_override_def
  new_URL_def OriginalWebSocket_def mock_WebSocket_def native_socket_def set_ready_def
  onclose_def onopen_def onerror_def setTimeout_def reconnect_callback_def close_method_def
  pending_timers_def failed_reconnects_def

text \<open>What the close handler does with the bindings it captured.\<close>

lemma onclose_schedules:
  assumes "env_isStreaming e" and "env_connectionAttempts e < 5"
  shows "timers (onclose e st) =
           timers st @ [\<lparr> timer_delay = 2 ^ env_connectionAttempts e * 1000, timer_env = e,
                           timer_pending = True \<rparr>]"
  using assms by (simp add: onclose_def setTimeout_def Let_def)

text \<open>
  The handlers of a reconnected socket and the timer armed by its close carry the bindings
  of the timer that created the socket: the state's counter does not reach them.
\<close>

lemma reconnect_keeps_env:
  "sockets (settle (reconnect_callback (WebSocket_override oc) e st)) =
     sockets st @ [(if oc = Native_ok
                    then \<lparr> sock_mock = False, sock_ready = CONNECTING, sock_handlers = None \<rparr>
                    else mock_WebSocket)\<lparr>sock_handlers := Some e\<rparr>]
   \<and> connectionAttempts (settle (reconnect_callback (WebSocket_override oc) e st)) =
       connectionAttempts st + 1"
  by (cases oc)
    (simp_all add: reconnect_callback_def connectWebSocket_def connectWebSocket_try_def
      WebSocket_override_def new_URL_def OriginalWebSocket_def Let_def)

text \<open>
  Claim C2. The claim: the n-th automatic reconnect (n = 0..4) is scheduled \<open>2^n\<close> seconds
  after the close (1s, 2s, 4s, 8s, 16s) and no sixth one is ever scheduled. The page does
  not do this. Streaming is switched on in the initial page and every connection fails to
  open: after the first reconnect the counter is 1, and the next close arms a timer of
  1000 ms again, not 2000 ms; after six reconnects the counter is 6, all seven timers had a
  delay of 1000 ms and the seventh is pending.
\<close>

theorem backoff_delay_stays_constant:
  "connectionAttempts (run (\<lambda>d. None) (failed_reconnects 1 @ [Ws_error 1, Ws_close 1]) initial_page) = 1
   \<and> map timer_delay (pending_timers
         (run (\<lambda>d. None) (failed_reconnects 1 @ [Ws_error 1, Ws_close 1]) initial_page)) = [1000]
   \<and> connectionAttempts (run (\<lambda>d. None) (failed_reconnects 6 @ [Ws_error 6, Ws_close 6]) initial_page) = 6
   \<and> map timer_delay (timers
         (run (\<lambda>d. None) (failed_reconnects 6 @ [Ws_error 6, Ws_close 6]) initial_page))
       = [1000, 1000, 1000, 1000, 1000, 1000, 1000]
   \<and> map timer_delay (pending_timers
         (run (\<lambda>d. None) (failed_reconnects 6 @ [Ws_error 6, Ws_close 6]) initial_page)) = [1000]"
  by code_simp

text \<open>
  Claim C6. The claim: a successful open sets the state to Connected and resets the retry
  counter to 0, so that the next close is followed by a reconnect after \<open>2^0\<close> = 1 second.
  \<open>onopen\<close> does set \<open>isConnected\<close> and reset the counter, but the reset does not reach
  the close handler. Two reconnects fail (the counter is 2), streaming is switched off and on
  again, and the new connection opens: the page is connected and the counter is 0; when this
  connection closes, the reconnect is armed with 4000 ms.
\<close>

theorem retry_reset_does_not_reach_backoff:
  "isConnected (run (\<lambda>d. None)
      (failed_reconnects 2 @ [Click_toggle Native_ok, Click_toggle Native_ok, Ws_open 3]) initial_page)
   \<and> connectionAttempts (run (\<lambda>d. None)
      (failed_reconnects 2 @ [Click_toggle Native_ok, Click_toggle Native_ok, Ws_open 3]) initial_page) = 0
   \<and> map timer_delay (pending_timers (run (\<lambda>d. None)
      (failed_reconnects 2 @ [Click_toggle Native_ok, Click_toggle Native_ok, Ws_open 3, Ws_close 3])
      initial_page)) = [4000]"
  by code_simp

text \<open>
  Claim C3, as stated, fails: after five closes with no open in between, and the failure of
  the fifth reconnect, the counter is 5 and the page is disconnected, yet no
  "Connection Failed" toast was shown: the only toasts are the six "Connection Error" toasts
  of the error handler, one for each connection that failed.
\<close>

theorem no_exhaustion_notification_counterexample:
  "connectionAttempts
     (run (\<lambda>d. None) (failed_reconnects 5 @ [Ws_error 5, Ws_close 5]) initial_page) = 5
   \<and> \<not> isConnected
     (run (\<lambda>d. None) (failed_reconnects 5 @ [Ws_error 5, Ws_close 5]) initial_page)
   \<and> count_list (toasts
     (run (\<lambda>d. None) (failed_reconnects 5 @ [Ws_error 5, Ws_close 5]) initial_page))
        Toast_ConnectionFailed = 0
   \<and> toasts (run (\<lambda>d. None) (failed_reconnects 5 @ [Ws_error 5, Ws_close 5]) initial_page)
       = replicate 6 Toast_ConnectionError"
  by code_simp

text \<open>
  Claim C3, amended. When the close handler runs with an attempt count of at least 5 (the
  \<open>connectionAttempts\<close> binding its closure captured), it schedules no reconnect and
  leaves the page disconnected: its only effect is \<open>isConnected := false\<close>. The close
  handler shows no toast, whatever the count: there is no notification of an exhausted
  retry budget.
\<close>

theorem onclose_budget_exhausted:
  assumes "5 \<le> env_connectionAttempts e"
  shows "onclose e st = st\<lparr>isConnected := False\<rparr>
       \<and> timers (onclose e st) = timers st
       \<and> \<not> isConnected (onclose e st)
       \<and> toasts (onclose e st) = toasts st
       \<and> toasts (onclose e' st) = toasts st"
  using assms by (simp add: onclose_def setTimeout_def Let_def)

theorem onclose_budget_exhausted_witness:
  "5 \<le> env_connectionAttempts \<lparr>env_isStreaming = True, env_connectionAttempts = 5\<rparr>
   \<and> pending_timers (onclose \<lparr>env_isStreaming = True, env_connectionAttempts = 5\<rparr>
        (onopen initial_page)) = []
   \<and> \<not> isConnected (onclose \<lparr>env_isStreaming = True, env_connectionAttempts = 5\<rparr>
        (onopen initial_page))
   \<and> toasts (onclose \<lparr>env_isStreaming = True, env_connectionAttempts = 5\<rparr>
        (onopen initial_page)) = [Toast_Connected]"
proof -
  have h: "5 \<le> env_connectionAttempts \<lparr>env_isStreaming = True, env_connectionAttempts = 5\<rparr>"
    by simp
  from onclose_budget_exhausted [OF h, of "onopen initial_page"] h show ?thesis
    by (simp add: pending_timers_def onopen_def initial_page_def)
qed

section \<open>Stopping\<close>

text \<open>
  Claim C4, as stated, fails: a reconnect timer that is pending when
  \<open>disconnectWebSocket\<close> runs is still pending afterwards, also when streaming is
  switched off through the toggle (which runs \<open>disconnectWebSocket\<close> twice).
\<close>

theorem stop_keeps_reconnect_timer_counterexample:
  "map timer_delay (pending_timers (disconnectWebSocket
      (run (\<lambda>d. None) [Click_toggle Native_ok, Ws_error 0, Ws_close 0] initial_page))) = [1000]
   \<and> map timer_delay (pending_timers (disconnectWebSocket (disconnectWebSocket
      (run (\<lambda>d. None) [Click_toggle Native_ok, Ws_error 0, Ws_close 0] initial_page)))) = [1000]
   \<and> map timer_delay (pending_timers
      (run (\<lambda>d. None) [Click_toggle Native_ok, Ws_error 0, Ws_close 0, Click_toggle Native_ok]
         initial_page)) = [1000]"
  by code_simp

text \<open>
  The timer that survives the stop fires later and connects again, although streaming is
  switched off.
\<close>

lemma reconnect_after_stop:
  "isStreaming (run (\<lambda>d. None)
      [Click_toggle Native_ok, Ws_error 0, Ws_close 0, Click_toggle Native_ok, Timeout 0 Native_ok]
      initial_page) = False
   \<and> wsRef (run (\<lambda>d. None)
      [Click_toggle Native_ok, Ws_error 0, Ws_close 0, Click_toggle Native_ok, Timeout 0 Native_ok]
      initial_page) = Some 1
   \<and> map sock_ready (sockets (run (\<lambda>d. None)
      [Click_toggle Native_ok, Ws_error 0, Ws_close 0, Click_toggle Native_ok, Timeout 0 Native_ok]
      initial_page)) = [CLOSED, CONNECTING]"
  by code_simp

text \<open>
  Claim C4, amended. \<open>disconnectWebSocket\<close> is idempotent: called twice in succession it
  gives the state that one call gives, with \<open>isConnected = false\<close> and
  \<open>wsRef.current = null\<close>; it calls \<open>close()\<close> on the referenced socket, so a native
  socket that was connecting or open is so no longer; it leaves the timers as they are
  (a pending reconnect timer is not cancelled).
\<close>

theorem disconnectWebSocket_idempotent:
  "disconnectWebSocket (disconnectWebSocket st) = disconnectWebSocket st
   \<and> isConnected (disconnectWebSocket st) = False
   \<and> wsRef (disconnectWebSocket st) = None
   \<and> timers (disconnectWebSocket st) = timers st
   \<and> (\<forall>i. wsRef st = Some i \<and> i < length (sockets st) \<and> \<not> sock_mock (sockets st ! i) \<longrightarrow>
         sock_ready (sockets (disconnectWebSocket st) ! i) \<noteq> CONNECTING
       \<and> sock_ready (sockets (disconnectWebSocket st) ! i) \<noteq> OPEN)"
  by (auto simp add: disconnectWebSocket_def close_method_def split: option.splits)

theorem disconnectWebSocket_idempotent_witness:
  "wsRef (run (\<lambda>d. None) [Click_toggle Native_ok, Ws_open 0] initial_page) = Some 0
   \<and> sock_ready (sockets (run (\<lambda>d. None) [Click_toggle Native_ok, Ws_open 0] initial_page) ! 0) = OPEN
   \<and> sock_ready (sockets (disconnectWebSocket
         (run (\<lambda>d. None) [Click_toggle Native_ok, Ws_open 0] initial_page)) ! 0) = CLOSING
   \<and> isConnected (run (\<lambda>d. None) [Click_toggle Native_ok, Ws_open 0] initial_page)
   \<and> isConnected (disconnectWebSocket
         (run (\<lambda>d. None) [Click_toggle Native_ok, Ws_open 0] initial_page)) = False
   \<and> disconnectWebSocket (disconnectWebSocket
         (run (\<lambda>d. None) [Click_toggle Native_ok, Ws_open 0] initial_page))
       = disconnectWebSocket (run (\<lambda>d. None) [Click_toggle Native_ok, Ws_open 0] initial_page)"
  using disconnectWebSocket_idempotent
    [of "run (\<lambda>d. None) [Click_toggle Native_ok, Ws_open 0] initial_page"]
  by (simp add: page_defs)

section \<open>Failure of the WebSocket constructor\<close>

lemma WebSocket_override_never_throws:
  "WebSocket_override oc =
    (if oc = Native_ok
     then (Inr \<lparr> sock_mock = False, sock_ready = CONNECTING, sock_handlers = None \<rparr>, [])
     else (Inr mock_WebSocket, [Warn_invalid_url]))"
  by (cases oc) (simp_all add: WebSocket_override_def new_URL_def OriginalWebSocket_def)

text \<open>
  Claim C8, as stated, fails: when streaming is switched on and the construction fails (the
  URL is invalid, or the native constructor throws), no "Connection Failed" toast is shown;
  the only trace is the warning in the console.
\<close>

theorem construction_failure_not_notified_counterexample:
  "toasts (run (\<lambda>d. None) [Click_toggle Url_invalid] initial_page) = []
   \<and> console (run (\<lambda>d. None) [Click_toggle Url_invalid] initial_page) = [Warn_invalid_url]
   \<and> toasts (run (\<lambda>d. None) [Click_toggle Native_throws] initial_page) = []"
  by code_simp

text \<open>
  Claim C8, amended. A failing construction never propagates an exception past
  \<open>connectWebSocket\<close> and leaves \<open>isConnected\<close> as it was. With the entry point's
  \<open>window.WebSocket\<close> override the failure is swallowed inside the constructor: a warning
  is logged, the inert mock object is stored in \<open>wsRef\<close> with the handlers assigned, and
  no toast is shown. The \<open>catch\<close> of \<open>connectWebSocket\<close> (an error in the console and
  the "Connection Failed" toast) runs only for a constructor that throws, as the native
  one does and the override never does.
\<close>

theorem construction_failure_is_swallowed:
  assumes "oc \<noteq> Native_ok"
  shows "connectWebSocket (WebSocket_override oc) e st =
           Normal (st\<lparr>console := console st @ [Warn_invalid_url],
                      sockets := sockets st @ [mock_WebSocket\<lparr>sock_handlers := Some e\<rparr>],
                      wsRef := Some (length (sockets st))\<rparr>)
       \<and> toasts (settle (connectWebSocket (WebSocket_override oc) e st)) = toasts st
       \<and> isConnected (settle (connectWebSocket (WebSocket_override oc) e st)) = isConnected st
       \<and> uncaught (settle (connectWebSocket (WebSocket_override oc) e st)) = uncaught st
       \<and> (\<exists>ex. connectWebSocket (WebSocket_native oc) e st =
           Normal (st\<lparr>console := console st @ [Error_create_connection ex],
                      toasts := toasts st @ [Toast_ConnectionFailed]\<rparr>))"
proof -
  have "\<exists>ex. OriginalWebSocket oc = Inl ex"
    using assms by (cases oc) (simp_all add: OriginalWebSocket_def)
  then obtain ex where "OriginalWebSocket oc = Inl ex" ..
  then have "connectWebSocket (WebSocket_native oc) e st =
      Normal (st\<lparr>console := console st @ [Error_create_connection ex],
                 toasts := toasts st @ [Toast_ConnectionFailed]\<rparr>)"
    by (simp add: WebSocket_native_def connectWebSocket_def connectWebSocket_try_def)
  then have native: "\<exists>ex. connectWebSocket (WebSocket_native oc) e st =
      Normal (st\<lparr>console := console st @ [Error_create_connection ex],
                 toasts := toasts st @ [Toast_ConnectionFailed]\<rparr>)" ..
  have override: "connectWebSocket (WebSocket_override oc) e st =
      Normal (st\<lparr>console := console st @ [Warn_invalid_url],
                 sockets := sockets st @ [mock_WebSocket\<lparr>sock_handlers := Some e\<rparr>],
                 wsRef := Some (length (sockets st))\<rparr>)"
    using assms
    by (simp add: WebSocket_override_never_throws connectWebSocket_def connectWebSocket_try_def
        Let_def)
  have "toasts (settle (connectWebSocket (WebSocket_override oc) e st)) = toasts st"
    and "isConnected (settle (connectWebSocket (WebSocket_override oc) e st)) = isConnected st"
    and "uncaught (settle (connectWebSocket (WebSocket_override oc) e st)) = uncaught st"
    by (simp_all add: override)
  with native override show ?thesis by blast
qed

theorem construction_failure_is_swallowed_witness:
  "Url_invalid \<noteq> Native_ok
   \<and> toasts (settle (connectWebSocket (WebSocket_override Url_invalid)
        \<lparr>env_isStreaming = True, env_connectionAttempts = 0\<rparr> initial_page)) = []
   \<and> isConnected (settle (connectWebSocket (WebSocket_override Url_invalid)
        \<lparr>env_isStreaming = True, env_connectionAttempts = 0\<rparr> initial_page)) = False
   \<and> uncaught (settle (connectWebSocket (WebSocket_override Url_invalid)
        \<lparr>env_isStreaming = True, env_connectionAttempts = 0\<rparr> initial_page)) = []"
proof -
  have h: "Url_invalid \<noteq> Native_ok" by simp
  from construction_failure_is_swallowed
    [OF h, of "\<lparr>env_isStreaming = True, env_connectionAttempts = 0\<rparr>" initial_page]
  show ?thesis by (simp add: initial_page_def)
qed

section \<open>The polling interval handed to the status query\<close>

lemma refetchInterval_streaming: "refetchInterval True data = Some 30000"
  by (simp add: refetchInterval_def)

lemma refetchInterval_not_streaming:
  "refetchInterval False data =
    (if truthy (optional_prop data ''isActivelyStreaming'') then Some 30000 else None)"
  by (simp add: refetchInterval_def)

lemma refetchInterval_no_data: "refetchInterval False JUndefined = None"
  by (simp add: refetchInterval_def optional_prop_def)



end
